theory Spec2Isabelle
  imports
    Complex_Main
    "HOL-Library.Word"
    "HOL-Library.Char_ord"
    "HOL-Library.List_Lexorder"
    "HOL-Library.Product_Lexorder"
    "HOL-Library.Sublist"
    "HOL-Library.Multiset"
    "HOL-Library.Log_Nat"
begin

section \<open>Data model\<close>

text \<open>
  The dashboard of \<^verbatim>\<open>app.py\<close> works on one pandas data frame read from
  \<^verbatim>\<open>superstore.csv\<close>. A frame is modelled as the list of its rows, in row order.

  A calendar date is the triple (year, month, day); with the lexicographic order of
  pairs this is the chronological order that pandas uses when it compares timestamps.

  The columns \<^verbatim>\<open>sales\<close> and \<^verbatim>\<open>profit\<close> are float64 in pandas. Their type is left
  as a parameter \<open>'a\<close> of the model. The aggregations only ask for an addition, a zero and
  a linear order on it (so \<^verbatim>\<open>NaN\<close> is left out); unless a statement says otherwise no
  law of arithmetic (associativity, commutativity) is assumed, and what is proved does
  not depend on how additions round. The column \<^verbatim>\<open>quantity\<close> is an int64 and sums of
  it wrap around.
\<close>

type_synonym date = "int \<times> int \<times> int"

type_synonym period = "int \<times> int"

record 'a row =
  order_id :: string
  order_date :: date
  ship_date :: date
  region :: string
  state :: string
  city :: string
  category :: string
  sub_category :: string
  product_name :: string
  sales :: 'a
  quantity :: "64 word"
  profit :: 'a
  ship_mode :: string

type_synonym 'a frame = "'a row list"

text \<open>
  The values of the five filter widgets (lines 98 to 108): three select boxes, whose first
  option is the sentinel \<^verbatim>\<open>"All"\<close>, and two date inputs.
\<close>

record filter_spec =
  sel_region :: string
  sel_state :: string
  sel_city :: string
  start_date :: date
  end_date :: date

section \<open>The filter (lines 111 to 118)\<close>

text \<open>
  \<^verbatim>\<open>df[mask]\<close> with a boolean mask keeps the rows whose mask entry is true, in their
  order. Each of the three equality masks is applied only when its widget is not
  \<^verbatim>\<open>"All"\<close>; the date mask is always applied.
\<close>

definition df_filtered :: "'a frame \<Rightarrow> filter_spec \<Rightarrow> 'a frame" where
  "df_filtered df spec =
     (let d0 = df;
          d1 = (if sel_region spec \<noteq> ''All''
                then filter (\<lambda>r. region r = sel_region spec) d0 else d0);
          d2 = (if sel_state spec \<noteq> ''All''
                then filter (\<lambda>r. state r = sel_state spec) d1 else d1);
          d3 = (if sel_city spec \<noteq> ''All''
                then filter (\<lambda>r. city r = sel_city spec) d2 else d2)
      in filter (\<lambda>r. start_date spec \<le> order_date r \<and> order_date r \<le> end_date spec) d3)"

text \<open>
  The conjunction of the active predicates, one row at a time: what the claims about the
  filter compare \<open>df_filtered\<close> with.
\<close>

definition region_ok :: "filter_spec \<Rightarrow> 'a row \<Rightarrow> bool" where
  "region_ok spec r = (if sel_region spec = ''All'' then True else region r = sel_region spec)"

definition state_ok :: "filter_spec \<Rightarrow> 'a row \<Rightarrow> bool" where
  "state_ok spec r = (if sel_state spec = ''All'' then True else state r = sel_state spec)"

definition city_ok :: "filter_spec \<Rightarrow> 'a row \<Rightarrow> bool" where
  "city_ok spec r = (if sel_city spec = ''All'' then True else city r = sel_city spec)"

definition date_ok :: "filter_spec \<Rightarrow> 'a row \<Rightarrow> bool" where
  "date_ok spec r = (start_date spec \<le> order_date r \<and> order_date r \<le> end_date spec)"

definition satisfies :: "filter_spec \<Rightarrow> 'a row \<Rightarrow> bool" where
  "satisfies spec r = (region_ok spec r \<and> state_ok spec r \<and> city_ok spec r \<and> date_ok spec r)"



section \<open>Aggregations\<close>

text \<open>
  \<^verbatim>\<open>Series.sum()\<close> adds the values in row order, starting from zero; on a series
  without rows the result is zero.
\<close>

definition total :: "'a::{plus,zero} list \<Rightarrow> 'a" where
  "total xs = foldl (+) 0 xs"

text \<open>
  \<^verbatim>\<open>df.groupby(key)['sales'].sum()\<close>: one entry per distinct key of the frame, the
  entries in ascending key order (pandas sorts the group keys by default), each with the
  sum of \<^verbatim>\<open>sales\<close> over the rows of its group, taken in row order.
\<close>

definition group_rows :: "('a row \<Rightarrow> 'k) \<Rightarrow> 'a frame \<Rightarrow> 'k \<Rightarrow> 'a frame" where
  "group_rows key df k = filter (\<lambda>r. key r = k) df"

definition group_keys :: "('a row \<Rightarrow> 'k::linorder) \<Rightarrow> 'a frame \<Rightarrow> 'k list" where
  "group_keys key df = sort (remdups (map key df))"

definition groupby_sum :: "('a row \<Rightarrow> 'k::linorder) \<Rightarrow> 'a::{plus,zero} frame \<Rightarrow> ('k \<times> 'a) list" where
  "groupby_sum key df = map (\<lambda>k. (k, total (map sales (group_rows key df k)))) (group_keys key df)"

text \<open>
  \<^verbatim>\<open>Series.idxmax()\<close>: the label of the first entry that holds the largest value; it
  raises \<^verbatim>\<open>ValueError\<close> on a series without entries. The scan keeps the entry found
  so far unless a later one is strictly larger.
\<close>

datatype py_error = ValueError

fun argmax_from :: "'k \<times> 'a::linorder \<Rightarrow> ('k \<times> 'a) list \<Rightarrow> 'k \<times> 'a" where
  "argmax_from best [] = best"
| "argmax_from best (p # ps) = argmax_from (if snd best < snd p then p else best) ps"

definition idxmax :: "('k \<times> 'a::linorder) list \<Rightarrow> py_error + 'k" where
  "idxmax xs = (case xs of [] \<Rightarrow> Inl ValueError | p # ps \<Rightarrow> Inr (fst (argmax_from p ps)))"

subsection \<open>The six metric cards (lines 122 to 129)\<close>

text \<open>
  The cards show formatted strings; the model gives the values that are formatted. The
  two "top" cards are strings in the source as well: a group key, or \<^verbatim>\<open>"-"\<close> when the
  filtered frame is empty.
\<close>

definition total_sales :: "'a::{plus,zero} frame \<Rightarrow> 'a" where
  "total_sales df = total (map sales df)"

definition qty_sold :: "'a frame \<Rightarrow> 64 word" where
  "qty_sold df = total (map quantity df)"

definition total_profit :: "'a::{plus,zero} frame \<Rightarrow> 'a" where
  "total_profit df = total (map profit df)"

definition top_category :: "'a::{plus,zero,linorder} frame \<Rightarrow> py_error + string" where
  "top_category df = (if df \<noteq> [] then idxmax (groupby_sum category df) else Inr ''-'')"

definition top_city :: "'a::{plus,zero,linorder} frame \<Rightarrow> py_error + string" where
  "top_city df = (if df \<noteq> [] then idxmax (groupby_sum city df) else Inr ''-'')"

definition orders :: "'a frame \<Rightarrow> nat" where
  "orders df = length (remdups (map order_id df))"

subsection \<open>Sales page (lines 147 and 178)\<close>


definition reg_sales :: "'a::{plus,zero} frame \<Rightarrow> (string \<times> 'a) list" where
  "reg_sales df = groupby_sum region df"

subsection \<open>Trends page (line 201)\<close>

text \<open>\<^verbatim>\<open>dt.to_period('M')\<close> keeps the year and the month of a date.\<close>

definition to_period_M :: "date \<Rightarrow> period" where
  "to_period_M d = (case d of (y, m, _) \<Rightarrow> (y, m))"

definition trend :: "'a::{plus,zero} frame \<Rightarrow> (period \<times> 'a) list" where
  "trend df = groupby_sum (\<lambda>r. to_period_M (order_date r)) df"

subsection \<open>Product and Location pages (lines 266, 301 and 332)\<close>

text \<open>
  \<^verbatim>\<open>.sort_values(ascending=False).head(10)\<close> on the grouped sums. The source passes no
  \<^verbatim>\<open>kind\<close>, so pandas sorts with its default, \<^verbatim>\<open>kind='quicksort'\<close>, which the
  pandas documentation lists as not stable: the result holds the same entries in descending
  order of value, and the order among entries of equal value is the sorting routine's.
  The routine is therefore a parameter \<open>srt\<close> of the model, and \<open>sorts_descending\<close> is
  what the source can rely on.
\<close>

definition sorts_descending :: "(('k \<times> 'a::linorder) list \<Rightarrow> ('k \<times> 'a) list) \<Rightarrow> bool" where
  "sorts_descending srt =
     (\<forall>xs. mset (srt xs) = mset xs \<and> sorted_wrt (\<lambda>p q. snd q \<le> snd p) (srt xs))"

definition ranking ::
  "((string \<times> 'a) list \<Rightarrow> (string \<times> 'a) list) \<Rightarrow> ('a row \<Rightarrow> string) \<Rightarrow>
   'a::{plus,zero,linorder} frame \<Rightarrow> (string \<times> 'a) list" where
  "ranking srt key df = take 10 (srt (groupby_sum key df))"

definition top_products ::
  "((string \<times> 'a) list \<Rightarrow> (string \<times> 'a) list) \<Rightarrow> 'a::{plus,zero,linorder} frame \<Rightarrow> (string \<times> 'a) list" where
  "top_products srt df = ranking srt product_name df"

definition state_sales ::
  "((string \<times> 'a) list \<Rightarrow> (string \<times> 'a) list) \<Rightarrow> 'a::{plus,zero,linorder} frame \<Rightarrow> (string \<times> 'a) list" where
  "state_sales srt df = ranking srt state df"

definition city_sales ::
  "((string \<times> 'a) list \<Rightarrow> (string \<times> 'a) list) \<Rightarrow> 'a::{plus,zero,linorder} frame \<Rightarrow> (string \<times> 'a) list" where
  "city_sales srt df = ranking srt city df"

text \<open>
  Entries of equal value keep the order they had after grouping: for every value of the
  ranking, its entries with that value, in ranking order, are a subsequence of the
  grouped entries with that value.
\<close>

definition ties_keep_order :: "('k \<times> 'a) list \<Rightarrow> ('k \<times> 'a) list \<Rightarrow> bool" where
  "ties_keep_order grouped ranked =
     list_all (\<lambda>v. subseq (filter (\<lambda>p. snd p = v) ranked) (filter (\<lambda>p. snd p = v) grouped))
       (map snd ranked)"

text \<open>
  One sorting routine within the contract: sort ascending (insertion sort), then
  reverse.
\<close>

definition reversed_sort :: "('k \<times> 'a::linorder) list \<Rightarrow> ('k \<times> 'a) list" where
  "reversed_sort xs = rev (sort_key snd xs)"

subsection \<open>Shipping page (lines 386 and 387)\<close>

text \<open>
  \<^verbatim>\<open>(ship_date - order_date).dt.days\<close> is the difference of the two day numbers;
  \<open>days_from_civil\<close> is the day number of a date of the proleptic Gregorian calendar,
  counted from 1970-01-01. \<^verbatim>\<open>.mean()\<close> of a series without rows is \<^verbatim>\<open>NaN\<close>:
  \<open>None\<close>. The mean is given as the exact quotient, which pandas rounds to a float64.
\<close>

definition days_from_civil :: "date \<Rightarrow> int" where
  "days_from_civil dt =
     (case dt of (y0, m, d) \<Rightarrow>
        let y = (if m \<le> 2 then y0 - 1 else y0);
            era = y div 400;
            yoe = y - era * 400;
            doy = (153 * (if 2 < m then m - 3 else m + 9) + 2) div 5 + d - 1;
            doe = yoe * 365 + yoe div 4 - yoe div 100 + doy
        in era * 146097 + doe - 719468)"

definition ship_days :: "'a row \<Rightarrow> int" where
  "ship_days r = days_from_civil (ship_date r) - days_from_civil (order_date r)"

definition avg_ship :: "'a frame \<Rightarrow> rat option" where
  "avg_ship df =
     (if df = [] then None
      else Some (of_int (sum_list (map ship_days df)) / of_nat (length df)))"

text \<open>
  The text of the metric: \<^verbatim>\<open>f"{avg_ship:.1f} days"\<close>, here the parameter \<open>fmt\<close>, unless
  \<^verbatim>\<open>pd.isna(avg_ship)\<close>, and then \<^verbatim>\<open>"-"\<close>.
\<close>

definition avg_ship_metric :: "(rat \<Rightarrow> string) \<Rightarrow> 'a frame \<Rightarrow> string" where
  "avg_ship_metric fmt df = (case avg_ship df of Some x \<Rightarrow> fmt x | None \<Rightarrow> ''-'')"

section \<open>The filter on a store of frames\<close>

text \<open>
  Lines 111 to 118 once more, with the identity of the frame objects made explicit. The
  names \<^verbatim>\<open>df\<close> and \<^verbatim>\<open>df_filtered\<close> are references into a heap of frames.
  \<^verbatim>\<open>df.copy()\<close> and \<^verbatim>\<open>frame[mask]\<close> each build a new object and leave their
  operand as it is; an assignment rebinds the name. Nothing in these lines writes into
  an existing object.
\<close>

type_synonym ref = nat

record 'a store =
  heap :: "ref \<rightharpoonup> 'a frame"
  next_ref :: ref
  var_df :: ref
  var_df_filtered :: "ref option"

definition frame_at :: "'a store \<Rightarrow> ref \<Rightarrow> 'a frame" where
  "frame_at s p = (case heap s p of Some f \<Rightarrow> f | None \<Rightarrow> [])"

definition alloc :: "'a frame \<Rightarrow> 'a store \<Rightarrow> ref \<times> 'a store" where
  "alloc f s = (next_ref s, s\<lparr>heap := (heap s)(next_ref s \<mapsto> f), next_ref := Suc (next_ref s)\<rparr>)"

definition copy :: "ref \<Rightarrow> 'a store \<Rightarrow> ref \<times> 'a store" where
  "copy p s = alloc (frame_at s p) s"

definition getitem_mask :: "('a row \<Rightarrow> bool) \<Rightarrow> ref \<Rightarrow> 'a store \<Rightarrow> ref \<times> 'a store" where
  "getitem_mask keep p s = alloc (filter keep (frame_at s p)) s"

definition run_filter :: "filter_spec \<Rightarrow> 'a store \<Rightarrow> 'a store" where
  "run_filter spec s0 =
     (let (p0, s1) = copy (var_df s0) s0;
          (p1, s2) = (if sel_region spec \<noteq> ''All''
                      then getitem_mask (\<lambda>r. region r = sel_region spec) p0 s1 else (p0, s1));
          (p2, s3) = (if sel_state spec \<noteq> ''All''
                      then getitem_mask (\<lambda>r. state r = sel_state spec) p1 s2 else (p1, s2));
          (p3, s4) = (if sel_city spec \<noteq> ''All''
                      then getitem_mask (\<lambda>r. city r = sel_city spec) p2 s3 else (p2, s3));
          (p4, s5) = getitem_mask
                       (\<lambda>r. start_date spec \<le> order_date r \<and> order_date r \<le> end_date spec) p3 s4
      in s5\<lparr>var_df_filtered := Some p4\<rparr>)"

section \<open>Predicates the properties are stated with\<close>



section \<open>Sums of float64 values\<close>

text \<open>
  A model of float64 addition, used for one question only: whether two sums of the same
  \<^verbatim>\<open>sales\<close> values, added in different orders, are equal. A finite float64 is the
  rational number it denotes; the sum of two is the exact sum rounded to 53 significant
  bits, ties to the even significand. Infinities, \<^verbatim>\<open>NaN\<close>, overflow and subnormal
  numbers are outside this model.
\<close>

definition round_half_even :: "rat \<Rightarrow> int" where
  "round_half_even q =
     (let f = \<lfloor>q\<rfloor>; r = q - of_int f
      in if r < 1 / 2 then f else if 1 / 2 < r then f + 1 else if even f then f else f + 1)"

text \<open>The exponent of a positive rational: \<open>2 ^ e \<le> x < 2 ^ (e + 1)\<close>.\<close>

definition ilog2 :: "rat \<Rightarrow> int" where
  "ilog2 x = (if 1 \<le> x then bitlen \<lfloor>x\<rfloor> - 1 else - bitlen (\<lceil>1 / x\<rceil> - 1))"

definition round_double :: "rat \<Rightarrow> rat" where
  "round_double x =
     (if x = 0 then 0
      else let ulp = 2 powi (ilog2 \<bar>x\<bar> - 52)
           in of_int (round_half_even (x / ulp)) * ulp)"

datatype float64 = Float64 (rat_of: rat)

instantiation float64 :: "{plus,zero}"
begin
definition plus_float64 :: "float64 \<Rightarrow> float64 \<Rightarrow> float64" where
  "plus_float64 a b = Float64 (round_double (rat_of a + rat_of b))"
definition zero_float64 :: float64 where
  "zero_float64 = Float64 0"
instance ..
end


section \<open>Example frames\<close>

text \<open>The two-row table of the specification's concrete scenarios.\<close>

definition example_table :: "int frame" where
  "example_table =
     [\<lparr>order_id = ''O1'', order_date = (2023, 1, 5), ship_date = (2023, 1, 9),
       region = ''East'', state = ''New York'', city = ''Albany'',
       category = ''Technology'', sub_category = ''Phones'', product_name = ''Desk Phone'',
       sales = 100, quantity = 2, profit = 10, ship_mode = ''Standard Class''\<rparr>,
      \<lparr>order_id = ''O2'', order_date = (2023, 2, 10), ship_date = (2023, 2, 12),
       region = ''West'', state = ''California'', city = ''Fresno'',
       category = ''Office Supplies'', sub_category = ''Paper'', product_name = ''Note Pad'',
       sales = 50, quantity = 1, profit = -3, ship_mode = ''First Class''\<rparr>]"


definition east_only :: filter_spec where
  "east_only = \<lparr>sel_region = ''East'', sel_state = ''All'', sel_city = ''All'',
                 start_date = (2023, 1, 1), end_date = (2023, 12, 31)\<rparr>"

definition reversed_range :: filter_spec where
  "reversed_range = \<lparr>sel_region = ''All'', sel_state = ''All'', sel_city = ''All'',
                      start_date = (2023, 12, 31), end_date = (2023, 1, 1)\<rparr>"

definition example_store :: "int store" where
  "example_store = \<lparr>heap = [0 \<mapsto> example_table], next_ref = 1, var_df = 0,
                     var_df_filtered = None\<rparr>"


text \<open>The two-row table again, with equal sales, so that the two products tie.\<close>

definition tie_table :: "int frame" where
  "tie_table = map (\<lambda>r. r\<lparr>sales := 100\<rparr>) example_table"

section \<open>Properties of the filter\<close>

lemma df_filtered_eq_filter: "df_filtered df spec = filter (satisfies spec) df"
  by (auto simp: df_filtered_def satisfies_def region_ok_def state_ok_def city_ok_def
      date_ok_def Let_def intro: filter_cong)

text \<open>
  C1. The filtered frame holds exactly the rows of the frame that satisfy every active
  predicate (the region, state and city equalities whose widget is not \<^verbatim>\<open>"All"\<close>, and
  the inclusive date range, all of them at once), and it is a subsequence of the frame:
  the rows keep their order.
\<close>

theorem filter_keeps_exactly_the_satisfying_rows:
  "df_filtered df spec = filter (satisfies spec) df \<and> subseq (df_filtered df spec) df"
  by (simp add: df_filtered_eq_filter)

theorem filter_keeps_exactly_the_satisfying_rows_witness:
  "df_filtered example_table east_only = filter (satisfies east_only) example_table \<and>
   subseq (df_filtered example_table east_only) example_table \<and>
   df_filtered example_table east_only = [hd example_table]"
  using filter_keeps_exactly_the_satisfying_rows [of example_table east_only]
  by (simp add: df_filtered_def example_table_def east_only_def)









text \<open>
  C8. When the start date is later than the end date no row satisfies the date
  predicate, and the filter returns the frame without rows.
\<close>

theorem reversed_range_gives_empty_view:
  "end_date spec < start_date spec \<Longrightarrow> df_filtered df spec = []"
  by (auto simp: df_filtered_eq_filter satisfies_def date_ok_def filter_empty_conv)

theorem reversed_range_gives_empty_view_witness:
  "end_date reversed_range < start_date reversed_range \<and>
   df_filtered example_table reversed_range = []"
proof -
  have h: "end_date reversed_range < start_date reversed_range"
    by (simp add: reversed_range_def)
  from reversed_range_gives_empty_view [OF h, of example_table] h show ?thesis by simp
qed

section \<open>Properties of the aggregations\<close>

lemma set_group_keys: "set (group_keys key df) = key ` set df"
  by (simp add: group_keys_def)


lemma length_group_keys: "length (group_keys key df) = card (key ` set df)"
  by (simp add: group_keys_def length_remdups_card_conv)

lemma map_fst_groupby_sum: "map fst (groupby_sum key df) = group_keys key df"
  by (simp add: groupby_sum_def comp_def)

lemma length_groupby_sum: "length (groupby_sum key df) = card (key ` set df)"
  by (simp add: groupby_sum_def length_group_keys)




text \<open>
  C2. On a filtered frame without rows nothing raises: the sums of sales, quantity and
  profit are zero, the number of distinct order ids is zero, the top category and the top
  city are \<^verbatim>\<open>"-"\<close>, the time trend has no point, and the average shipping time is shown
  as \<^verbatim>\<open>"-"\<close>.
\<close>

theorem empty_view_degrades_to_zero_and_dash:
  "total_sales ([] :: 'a::{plus,zero,linorder} frame) = 0 \<and>
   qty_sold ([] :: 'a frame) = 0 \<and>
   total_profit ([] :: 'a frame) = 0 \<and>
   orders ([] :: 'a frame) = 0 \<and>
   top_category ([] :: 'a frame) = Inr ''-'' \<and>
   top_city ([] :: 'a frame) = Inr ''-'' \<and>
   trend ([] :: 'a frame) = [] \<and>
   avg_ship_metric fmt ([] :: 'a frame) = ''-''"
  by (simp add: total_sales_def qty_sold_def total_profit_def orders_def top_category_def
      top_city_def trend_def avg_ship_metric_def avg_ship_def total_def groupby_sum_def
      group_keys_def)

theorem empty_view_degrades_to_zero_and_dash_witness:
  "df_filtered example_table reversed_range = [] \<and>
   total_sales (df_filtered example_table reversed_range) = 0 \<and>
   qty_sold (df_filtered example_table reversed_range) = 0 \<and>
   total_profit (df_filtered example_table reversed_range) = 0 \<and>
   orders (df_filtered example_table reversed_range) = 0 \<and>
   top_category (df_filtered example_table reversed_range) = Inr ''-'' \<and>
   top_city (df_filtered example_table reversed_range) = Inr ''-'' \<and>
   trend (df_filtered example_table reversed_range) = [] \<and>
   avg_ship_metric (\<lambda>x. ''days'') (df_filtered example_table reversed_range) = ''-''"
proof -
  have e: "df_filtered example_table reversed_range = []"
    by (simp add: df_filtered_def example_table_def reversed_range_def)
  show ?thesis
    unfolding e
    using empty_view_degrades_to_zero_and_dash [where ?'a = int and fmt = "\<lambda>x. ''days''"]
    by simp
qed



text \<open>The year-month of a date does not decrease when the date increases.\<close>

lemma to_period_M_mono: "d \<le> e \<Longrightarrow> to_period_M d \<le> to_period_M e"
  by (cases d, cases e) (auto simp: to_period_M_def less_eq_prod_def)








section \<open>Sums over a partition of the rows\<close>







section \<open>The frame that was loaded\<close>

text \<open>
  C9. Running the filter leaves the loaded frame as it was: the name \<^verbatim>\<open>df\<close> refers to
  the same object, that object holds the same rows in the same order, and so does every
  object that existed before. The filtered rows are in a new object, and they are the
  rows \<open>df_filtered\<close> computes. The aggregations only read the filtered frame. The store
  is well formed when \<^verbatim>\<open>df\<close> refers to an object that has been allocated.
\<close>

theorem filter_leaves_loaded_frame_unchanged:
  assumes "var_df s < next_ref s"
  shows "var_df (run_filter spec s) = var_df s \<and>
         frame_at (run_filter spec s) (var_df s) = frame_at s (var_df s) \<and>
         (\<forall>q < next_ref s. heap (run_filter spec s) q = heap s q) \<and>
         (\<exists>p. var_df_filtered (run_filter spec s) = Some p \<and> p \<noteq> var_df s \<and>
              frame_at (run_filter spec s) p = df_filtered (frame_at s (var_df s)) spec)"
  using assms
  by (auto simp: run_filter_def copy_def getitem_mask_def alloc_def frame_at_def
      df_filtered_def Let_def)

theorem filter_leaves_loaded_frame_unchanged_witness:
  "var_df example_store < next_ref example_store \<and>
   var_df (run_filter east_only example_store) = var_df example_store \<and>
   frame_at (run_filter east_only example_store) (var_df example_store) = example_table \<and>
   (\<exists>p. var_df_filtered (run_filter east_only example_store) = Some p \<and>
        p \<noteq> var_df example_store \<and>
        frame_at (run_filter east_only example_store) p =
          df_filtered (frame_at example_store (var_df example_store)) east_only)"
proof -
  have h: "var_df example_store < next_ref example_store"
    by (simp add: example_store_def)
  have f: "frame_at example_store (var_df example_store) = example_table"
    by (simp add: example_store_def frame_at_def)
  from filter_leaves_loaded_frame_unchanged [OF h, of east_only] h f show ?thesis by simp
qed

section \<open>Rankings\<close>

text \<open>
  What holds of the three rankings for every sorting routine within the contract
  \<open>sorts_descending\<close>: the number of entries is the smaller of 10 and the number of
  distinct keys, the values are in descending order, and every entry is an entry of the
  grouping, so its key is a key of the filtered frame.
\<close>

lemma ranking_length:
  fixes df :: "'a::{plus,zero,linorder} frame"
  assumes "sorts_descending srt"
  shows "length (ranking srt key df) = min 10 (card (key ` set df))"
proof -
  from assms have "mset (srt (groupby_sum key df)) = mset (groupby_sum key df)"
    by (simp add: sorts_descending_def)
  then have "length (srt (groupby_sum key df)) = length (groupby_sum key df)"
    by (rule mset_eq_length)
  then show ?thesis
    by (simp add: ranking_def length_groupby_sum min.commute)
qed

lemma ranking_descending:
  fixes df :: "'a::{plus,zero,linorder} frame"
  assumes "sorts_descending srt"
  shows "sorted_wrt (\<lambda>p q. snd q \<le> snd p) (ranking srt key df)"
proof -
  from assms have "sorted_wrt (\<lambda>p q. snd q \<le> snd p) (srt (groupby_sum key df))"
    by (simp add: sorts_descending_def)
  then show ?thesis unfolding ranking_def by (rule sorted_wrt_take)
qed

lemma ranking_entries:
  fixes df :: "'a::{plus,zero,linorder} frame"
  assumes "sorts_descending srt"
  shows "set (ranking srt key df) \<subseteq> set (groupby_sum key df)"
    and "fst ` set (ranking srt key df) \<subseteq> key ` set df"
proof -
  from assms have "mset (srt (groupby_sum key df)) = mset (groupby_sum key df)"
    by (simp add: sorts_descending_def)
  then have "set (srt (groupby_sum key df)) = set (groupby_sum key df)"
    by (rule mset_eq_setD)
  then show sub: "set (ranking srt key df) \<subseteq> set (groupby_sum key df)"
    unfolding ranking_def using set_take_subset[of 10 "srt (groupby_sum key df)"] by simp
  have "set (map fst (groupby_sum key df)) = key ` set df"
    by (simp add: map_fst_groupby_sum set_group_keys)
  then have "fst ` set (groupby_sum key df) = key ` set df" by simp
  with sub show "fst ` set (ranking srt key df) \<subseteq> key ` set df" by blast
qed

text \<open>
  The contract alone does not fix the order of tied entries: \<open>reversed_sort\<close> is within
  it and lists the two tied products of \<open>tie_table\<close> in the opposite of their grouping
  order. This is a statement about the contract. Which order pandas' default sort gives
  for tied entries is not part of this model.
\<close>

lemma sorted_desc_reversed_sort:
  fixes xs :: "('k \<times> 'a::linorder) list"
  shows "sorted_wrt (\<lambda>p q. snd q \<le> snd p) (rev (sort_key snd xs))"
proof -
  have "sorted (map snd (sort_key snd xs))" by (rule sorted_sort_key)
  then have "sorted_wrt (\<lambda>p q. snd p \<le> snd q) (sort_key snd xs)"
    by (simp add: sorted_map)
  then show ?thesis by (simp add: sorted_wrt_rev)
qed

lemma reversed_sort_in_contract:
  "sorts_descending (reversed_sort :: ('k \<times> 'a::linorder) list \<Rightarrow> ('k \<times> 'a) list)"
  by (simp add: sorts_descending_def reversed_sort_def sorted_desc_reversed_sort)

lemma contract_leaves_tie_order_open:
  "groupby_sum product_name tie_table = [(''Desk Phone'', 100), (''Note Pad'', 100)] \<and>
   top_products reversed_sort tie_table = [(''Note Pad'', 100), (''Desk Phone'', 100)] \<and>
   \<not> ties_keep_order (groupby_sum product_name tie_table)
        (top_products reversed_sort tie_table)"
  by code_simp

end
